theory Spec2Isabelle
  imports Complex_Main
begin

section \<open>Python values, exceptions and the outside world\<close>

text \<open>
  The module \<open>lllm/utils.py\<close> wraps a chat-completion client with two retry policies.
  Its functions take keyword arguments, build the keyword arguments of the outbound
  call, and reshape the answer into the legacy completion dictionary.

  Python values are a datatype. Floats are rationals: the module never computes with
  them, it only tests them against \<open>None\<close> and passes them on. A callable is an opaque
  identifier that the environment knows how to run.
\<close>

datatype pyval =
    PNone
  | PBool bool
  | PInt int
  | PFloat rat
  | PStr string
  | PList "pyval list"
  | PDict "(string \<times> pyval) list"
  | PCallable nat

text \<open>
  Exceptions. \<open>ExternalError\<close> is whatever the chat client or a custom endpoint raises
  (a subclass of \<open>Exception\<close>); \<open>RetryError\<close> is tenacity's wrapper around the last
  failed attempt. Interrupts that are not subclasses of \<open>Exception\<close>
  (\<open>KeyboardInterrupt\<close>, \<open>SystemExit\<close>), which neither retry policy handles, are outside
  the model.
\<close>

datatype exn =
    KeyError string
  | IndexError
  | TypeError
  | ValueError
  | ExternalError string
  | RetryError exn

type_synonym kwargs = "string \<rightharpoonup> pyval"

text \<open>The keyword arguments of the outbound call: a dictionary in insertion order.\<close>

type_synonym payload = "(string \<times> pyval) list"

text \<open>The answer of the chat-completion client, as far as the module reads it.\<close>

record usage_counts =
  prompt_tokens :: int
  completion_tokens :: int
  total_tokens :: int

record chat_choice =
  message_content :: pyval
  chat_finish_reason :: pyval

record chat_response =
  chat_choices :: "chat_choice list"
  chat_model :: string
  chat_usage :: "usage_counts option"

text \<open>The legacy completion dictionary the module returns.\<close>

record legacy_choice =
  choice_text :: pyval
  choice_index :: nat
  choice_logprobs :: pyval
  choice_finish_reason :: pyval

record legacy_response =
  choices :: "legacy_choice list"
  model :: pyval
  usage :: "usage_counts option"

text \<open>
  What \<open>completion_create_retry\<close> returns: the legacy dictionary on the hosted branch,
  the custom endpoint's own value on the local-model branch.
\<close>

datatype retval = Response legacy_response | EndpointResult pyval

text \<open>
  Effects are recorded in a trace, oldest event first: a call of
  \<open>client.chat.completions.create\<close> with its keyword arguments, a \<open>time.sleep\<close> with its
  duration, the diagnostic line printed for a caught exception, and a call of the custom
  endpoint with the prompts it received.
\<close>

datatype event =
    Call payload
  | Sleep rat
  | Print exn
  | Delegate nat pyval

type_synonym world = "event list"

text \<open>
  The environment is everything the module does not define. The chat client answers the
  \<open>k\<close>-th call ever made (counted from 0) for given keyword arguments with a response or
  an exception; \<open>random.random()\<close> is a sequence of draws; a callable is run on the
  prompts and the keyword arguments; \<open>str\<close> of a value that is not a string is left to
  the environment.
\<close>

record env =
  create :: "nat \<Rightarrow> payload \<Rightarrow> exn + chat_response"
  random :: "nat \<Rightarrow> rat"
  callable :: "nat \<Rightarrow> pyval \<Rightarrow> kwargs \<Rightarrow> exn + pyval"
  str_other :: "pyval \<Rightarrow> string"

fun is_call :: "event \<Rightarrow> bool" where
  "is_call (Call p) = True"
| "is_call _ = False"

definition calls_made :: "world \<Rightarrow> nat" where
  "calls_made w = length (filter is_call w)"

text \<open>\<open>time.sleep(d)\<close> raises \<open>ValueError\<close> for a negative duration.\<close>

definition sleep :: "rat \<Rightarrow> world \<Rightarrow> exn + world" where
  "sleep d w = (if d < 0 then Inl ValueError else Inr (w @ [Sleep d]))"

text \<open>\<open>kwargs.get(k, d)\<close>.\<close>

definition kw_get :: "kwargs \<Rightarrow> string \<Rightarrow> pyval \<Rightarrow> pyval" where
  "kw_get kw k d = (case kw k of None \<Rightarrow> d | Some v \<Rightarrow> v)"

text \<open>\<open>str(v)\<close>: a string is itself.\<close>

definition py_str :: "env \<Rightarrow> pyval \<Rightarrow> string" where
  "py_str E v = (case v of PStr s \<Rightarrow> s | _ \<Rightarrow> str_other E v)"

text \<open>\<open>sub in s\<close> for strings: \<open>sub\<close> occurs as a contiguous piece of \<open>s\<close>.\<close>

fun substring :: "string \<Rightarrow> string \<Rightarrow> bool" where
  "substring sub [] = (sub = [])"
| "substring sub (c # cs) = (take (length sub) (c # cs) = sub \<or> substring sub cs)"

text \<open>
  \<open>sub in v\<close>: substring test on a string, membership on a list, key membership on a
  dictionary, \<open>TypeError\<close> on a value that is not iterable.
\<close>

fun py_in :: "string \<Rightarrow> pyval \<Rightarrow> exn + bool" where
  "py_in sub (PStr s) = Inr (substring sub s)"
| "py_in sub (PList xs) = Inr (PStr sub \<in> set xs)"
| "py_in sub (PDict d) = Inr (sub \<in> fst ` set d)"
| "py_in sub _ = Inl TypeError"

text \<open>
  \<open>v[0]\<close>: the first character of a string, the first element of a list;
  \<open>IndexError\<close> when empty, \<open>KeyError\<close> on a dictionary (its keys are strings),
  \<open>TypeError\<close> on a value that is not subscriptable.
\<close>

fun py_item0 :: "pyval \<Rightarrow> exn + pyval" where
  "py_item0 (PStr []) = Inl IndexError"
| "py_item0 (PStr (c # cs)) = Inr (PStr [c])"
| "py_item0 (PList []) = Inl IndexError"
| "py_item0 (PList (x # xs)) = Inr x"
| "py_item0 (PDict d) = Inl (KeyError ''0'')"
| "py_item0 _ = Inl TypeError"

fun is_list :: "pyval \<Rightarrow> bool" where
  "is_list (PList xs) = True"
| "is_list _ = False"

section \<open>Building the outbound call and reshaping the answer\<close>

text \<open>\<open>{k: v for k, v in new_kwargs.items() if v is not None}\<close>\<close>

definition strip_none :: "payload \<Rightarrow> payload" where
  "strip_none d = filter (\<lambda>(k, v). v \<noteq> PNone) d"

definition user_message :: "pyval \<Rightarrow> pyval" where
  "user_message c = PList [PDict [(''role'', PStr ''user''), (''content'', c)]]"

text \<open>
  The dictionary \<open>new_kwargs\<close> of \<open>completion_with_backoff\<close> and of the single-prompt
  branch of \<open>completion_create_retry\<close> (the two literals are the same), after the removal
  of the \<open>None\<close> values.
\<close>

definition new_kwargs :: "kwargs \<Rightarrow> pyval \<Rightarrow> payload" where
  "new_kwargs kw c = strip_none
     [(''model'', kw_get kw ''model'' (PStr ''gpt-3.5-turbo'')),
      (''messages'', user_message c),
      (''max_tokens'', kw_get kw ''max_tokens'' PNone),
      (''temperature'', kw_get kw ''temperature'' PNone),
      (''top_p'', kw_get kw ''top_p'' PNone),
      (''n'', kw_get kw ''n'' PNone),
      (''stop'', kw_get kw ''stop'' PNone),
      (''presence_penalty'', kw_get kw ''presence_penalty'' PNone),
      (''frequency_penalty'', kw_get kw ''frequency_penalty'' PNone),
      (''logit_bias'', kw_get kw ''logit_bias'' PNone)]"

text \<open>The dictionary \<open>new_kwargs\<close> of the list-of-prompts branch: it has no entry \<open>n\<close>.\<close>

definition new_kwargs_batch :: "kwargs \<Rightarrow> pyval \<Rightarrow> payload" where
  "new_kwargs_batch kw c = strip_none
     [(''model'', kw_get kw ''model'' (PStr ''gpt-3.5-turbo'')),
      (''messages'', user_message c),
      (''max_tokens'', kw_get kw ''max_tokens'' PNone),
      (''temperature'', kw_get kw ''temperature'' PNone),
      (''top_p'', kw_get kw ''top_p'' PNone),
      (''stop'', kw_get kw ''stop'' PNone),
      (''presence_penalty'', kw_get kw ''presence_penalty'' PNone),
      (''frequency_penalty'', kw_get kw ''frequency_penalty'' PNone),
      (''logit_bias'', kw_get kw ''logit_bias'' PNone)]"

definition legacy_choice_of :: "nat \<Rightarrow> chat_choice \<Rightarrow> legacy_choice" where
  "legacy_choice_of i c =
     \<lparr>choice_text = message_content c, choice_index = i, choice_logprobs = PNone,
      choice_finish_reason = chat_finish_reason c\<rparr>"

text \<open>The dictionary returned for one response: the choices enumerated from 0.\<close>

definition format_response :: "chat_response \<Rightarrow> legacy_response" where
  "format_response r =
     \<lparr>choices = map (\<lambda>(i, c). legacy_choice_of i c) (enumerate 0 (chat_choices r)),
      model = PStr (chat_model r),
      usage = (case chat_usage r of
                 None \<Rightarrow> None
               | Some u \<Rightarrow> Some \<lparr>prompt_tokens = prompt_tokens u,
                                 completion_tokens = completion_tokens u,
                                 total_tokens = total_tokens u\<rparr>)\<rparr>"

section \<open>Single completion with backoff\<close>

text \<open>The body of \<open>completion_with_backoff\<close>: one attempt.\<close>

definition completion_body :: "env \<Rightarrow> kwargs \<Rightarrow> world \<Rightarrow> (exn + legacy_response) \<times> world" where
  "completion_body E kw w =
     (let prompt = kw_get kw ''prompt'' (PStr '''');
          p = new_kwargs kw prompt
      in case create E (calls_made w) p of
           Inl e \<Rightarrow> (Inl e, w @ [Call p])
         | Inr r \<Rightarrow> (Inr (format_response r), w @ [Call p]))"

text \<open>
  The decorator \<open>retry(wait=wait_random_exponential(min=1, max=60),
  stop=stop_after_attempt(10))\<close> comes from the tenacity library (version 8.2).
  \<open>wait_exponential\<close> gives the upper end of the waiting window for an attempt,
  \<open>max(max(0, min), min(multiplier * exp_base ** (attempt_number - 1), max))\<close> with
  multiplier 1 and base 2, and \<open>wait_random_exponential\<close> draws the wait with
  \<open>random.uniform(0, high)\<close>, that is \<open>0 + (high - 0) * random.random()\<close>. (Later
  versions draw from \<open>min\<close> to \<open>high\<close>; the bounds proved below hold for both.)
\<close>

definition wait_exponential :: "nat \<Rightarrow> rat" where
  "wait_exponential attempt_number = max (max 0 1) (min (1 * 2 ^ (attempt_number - 1)) 60)"

definition wait_random_exponential :: "env \<Rightarrow> nat \<Rightarrow> world \<Rightarrow> rat" where
  "wait_random_exponential E attempt_number w =
     0 + (wait_exponential attempt_number - 0) * random E (length w)"

definition stop_after_attempt :: "nat \<Rightarrow> bool" where
  "stop_after_attempt attempt_number = (attempt_number \<ge> 10)"

text \<open>
  The retrying loop of tenacity around the body. An attempt that returns ends the loop.
  An attempt that raises is retried after the wait, unless the stop condition holds:
  then, \<open>reraise\<close> being left at its default \<open>False\<close>, a \<open>RetryError\<close> is raised from
  the exception of the last attempt.
\<close>

function retrying :: "env \<Rightarrow> kwargs \<Rightarrow> nat \<Rightarrow> world \<Rightarrow> (exn + legacy_response) \<times> world" where
  "retrying E kw attempt_number w =
     (case completion_body E kw w of
        (Inr r, w1) \<Rightarrow> (Inr r, w1)
      | (Inl e, w1) \<Rightarrow>
          if stop_after_attempt attempt_number then (Inl (RetryError e), w1)
          else (case sleep (wait_random_exponential E attempt_number w1) w1 of
                  Inl e' \<Rightarrow> (Inl e', w1)
                | Inr w2 \<Rightarrow> retrying E kw (Suc attempt_number) w2))"
  by pat_completeness auto
termination
  by (relation "measure (\<lambda>(E, kw, a, w). 10 - a)") (auto simp: stop_after_attempt_def)

definition completion_with_backoff :: "env \<Rightarrow> kwargs \<Rightarrow> world \<Rightarrow> (exn + legacy_response) \<times> world" where
  "completion_with_backoff E kw w = retrying E kw 1 w"

section \<open>Delayed completion\<close>

definition delayed_completion_with_backoff ::
    "env \<Rightarrow> rat \<Rightarrow> kwargs \<Rightarrow> world \<Rightarrow> (exn + legacy_response) \<times> world" where
  "delayed_completion_with_backoff E delay_in_seconds kw w =
     (case sleep delay_in_seconds w of
        Inl e \<Rightarrow> (Inl e, w)
      | Inr w1 \<Rightarrow> completion_with_backoff E kw w1)"

section \<open>Completion with unconditional retry\<close>

definition add_usage :: "usage_counts \<Rightarrow> usage_counts option \<Rightarrow> usage_counts" where
  "add_usage tot u =
     (case u of
        None \<Rightarrow> tot
      | Some r \<Rightarrow> \<lparr>prompt_tokens = prompt_tokens tot + prompt_tokens r,
                  completion_tokens = completion_tokens tot + completion_tokens r,
                  total_tokens = total_tokens tot + total_tokens r\<rparr>)"

definition zero_usage :: usage_counts where
  "zero_usage = \<lparr>prompt_tokens = 0, completion_tokens = 0, total_tokens = 0\<rparr>"

text \<open>
  The \<open>for i, p in enumerate(prompt)\<close> loop of the list-of-prompts branch, with the
  position \<open>i\<close>, the choices collected so far and the running usage totals. An exception
  of the call leaves the loop (and the \<open>try\<close> block).
\<close>

fun batch_loop ::
    "env \<Rightarrow> kwargs \<Rightarrow> nat \<Rightarrow> pyval list \<Rightarrow> legacy_choice list \<Rightarrow> usage_counts \<Rightarrow> world
      \<Rightarrow> (exn + legacy_response) \<times> world" where
  "batch_loop E kw i [] all_choices total_usage w =
     (Inr \<lparr>choices = all_choices,
           model = kw_get kw ''model'' (PStr ''gpt-3.5-turbo''),
           usage = Some total_usage\<rparr>, w)"
| "batch_loop E kw i (p # ps) all_choices total_usage w =
     (let q = new_kwargs_batch kw (PStr (py_str E p))
      in case create E (calls_made w) q of
           Inl e \<Rightarrow> (Inl e, w @ [Call q])
         | Inr r \<Rightarrow>
             batch_loop E kw (Suc i) ps
               (all_choices @ map (legacy_choice_of i) (chat_choices r))
               (add_usage total_usage (chat_usage r))
               (w @ [Call q]))"

text \<open>The body of the \<open>try\<close> block: one attempt of the hosted branch.\<close>

definition try_body :: "env \<Rightarrow> kwargs \<Rightarrow> world \<Rightarrow> (exn + legacy_response) \<times> world" where
  "try_body E kw w =
     (case kw_get kw ''prompt'' (PStr '''') of
        PList ps \<Rightarrow> batch_loop E kw 0 ps [] zero_usage w
      | prompt \<Rightarrow>
          (let p = new_kwargs kw (PStr (py_str E prompt))
           in case create E (calls_made w) p of
                Inl e \<Rightarrow> (Inl e, w @ [Call p])
              | Inr r \<Rightarrow> (Inr (format_response r), w @ [Call p])))"

text \<open>
  The \<open>while True\<close> loop: an attempt that returns ends it; an exception is printed, the
  thread sleeps and the loop goes round again. The loop has no exit of its own, so the
  function is partial: \<open>None\<close> is the run that never returns.
\<close>

partial_function (option) retry_loop ::
    "env \<Rightarrow> rat \<Rightarrow> kwargs \<Rightarrow> world \<Rightarrow> ((exn + retval) \<times> world) option" where
  "retry_loop E sleep_time kw w =
     (case try_body E kw w of
        (Inr r, w1) \<Rightarrow> Some (Inr (Response r), w1)
      | (Inl e, w1) \<Rightarrow>
          (case sleep sleep_time (w1 @ [Print e]) of
             Inl e' \<Rightarrow> Some (Inl e', w1 @ [Print e])
           | Inr w2 \<Rightarrow> retry_loop E sleep_time kw w2))"

text \<open>
  Iterating over a value: the elements of a list, the characters of a string, the keys
  of a dictionary; \<open>TypeError\<close> otherwise.
\<close>

fun py_iter :: "pyval \<Rightarrow> exn + pyval list" where
  "py_iter (PList xs) = Inr xs"
| "py_iter (PStr s) = Inr (map (\<lambda>c. PStr [c]) s)"
| "py_iter (PDict d) = Inr (map (\<lambda>(k, v). PStr k) d)"
| "py_iter _ = Inl TypeError"

text \<open>\<open>[prompt[0] for prompt in kwargs['prompt']]\<close>, given the items of the iteration.\<close>

fun first_items :: "pyval list \<Rightarrow> exn + pyval list" where
  "first_items [] = Inr []"
| "first_items (p # ps) =
     (case py_item0 p of
        Inl e \<Rightarrow> Inl e
      | Inr x \<Rightarrow> (case first_items ps of Inl e \<Rightarrow> Inl e | Inr xs \<Rightarrow> Inr (x # xs)))"

text \<open>
  The condition \<open>'llama' in m or 'vicuna' in m or 'alpaca' in m\<close>, evaluated left to
  right with short circuit.
\<close>

definition local_model :: "pyval \<Rightarrow> exn + bool" where
  "local_model m =
     (case py_in ''llama'' m of
        Inl e \<Rightarrow> Inl e
      | Inr True \<Rightarrow> Inr True
      | Inr False \<Rightarrow>
          (case py_in ''vicuna'' m of
             Inl e \<Rightarrow> Inl e
           | Inr True \<Rightarrow> Inr True
           | Inr False \<Rightarrow> py_in ''alpaca'' m))"

text \<open>The local-model branch: lines 83 to 87.\<close>

definition local_branch :: "env \<Rightarrow> kwargs \<Rightarrow> world \<Rightarrow> (exn + retval) \<times> world" where
  "local_branch E kw w =
     (case kw ''prompt'' of
        None \<Rightarrow> (Inl (KeyError ''prompt''), w)
      | Some pr \<Rightarrow>
          (case py_item0 pr of
             Inl e \<Rightarrow> (Inl e, w)
           | Inr x \<Rightarrow>
               (case (if is_list x
                      then (case py_iter pr of
                              Inl e \<Rightarrow> Inl e
                            | Inr ps \<Rightarrow> map_sum id PList (first_items ps))
                      else Inr pr) of
                  Inl e \<Rightarrow> (Inl e, w)
                | Inr prompts \<Rightarrow>
                    (case kw ''endpoint'' of
                       None \<Rightarrow> (Inl (KeyError ''endpoint''), w)
                     | Some (PCallable f) \<Rightarrow>
                         (case callable E f prompts kw of
                            Inl e \<Rightarrow> (Inl e, w @ [Delegate f prompts])
                          | Inr v \<Rightarrow> (Inr (EndpointResult v), w @ [Delegate f prompts]))
                     | Some _ \<Rightarrow> (Inl TypeError, w)))))"

definition completion_create_retry ::
    "env \<Rightarrow> rat \<Rightarrow> kwargs \<Rightarrow> world \<Rightarrow> ((exn + retval) \<times> world) option" where
  "completion_create_retry E sleep_time kw w =
     (case kw ''model'' of
        None \<Rightarrow> Some (Inl (KeyError ''model''), w)
      | Some m \<Rightarrow>
          (case local_model m of
             Inl e \<Rightarrow> Some (Inl e, w)
           | Inr True \<Rightarrow> Some (local_branch E kw w)
           | Inr False \<Rightarrow> retry_loop E sleep_time kw w))"

section \<open>Vocabulary of the statements\<close>

text \<open>
  The keyword arguments a request can send to the chat client on the hosted branch: one
  dictionary per prompt of a list, or the dictionary of the single prompt.
\<close>

definition outbound :: "env \<Rightarrow> kwargs \<Rightarrow> payload \<Rightarrow> bool" where
  "outbound E kw q =
     (case kw_get kw ''prompt'' (PStr '''') of
        PList ps \<Rightarrow> q \<in> set (map (\<lambda>p. new_kwargs_batch kw (PStr (py_str E p))) ps)
      | prompt \<Rightarrow> q = new_kwargs kw (PStr (py_str E prompt)))"

text \<open>
  The events the \<open>while True\<close> loop can add to the trace: calls of the chat client with
  such keyword arguments, diagnostics, and sleeps of the fixed delay.
\<close>

definition loop_event :: "env \<Rightarrow> rat \<Rightarrow> kwargs \<Rightarrow> event \<Rightarrow> bool" where
  "loop_event E st kw ev =
     (case ev of
        Call q \<Rightarrow> outbound E kw q
      | Sleep d \<Rightarrow> d = st
      | Print e \<Rightarrow> True
      | Delegate f v \<Rightarrow> False)"


text \<open>
  The optional parameters of a request, when the caller leaves one unset (absent, or
  \<open>None\<close>), and the two properties of an outbound dictionary: no entry is \<open>None\<close>, and no
  unset parameter has an entry.
\<close>

definition sampling_parameters :: "string list" where
  "sampling_parameters =
     [''max_tokens'', ''temperature'', ''top_p'', ''n'', ''stop'', ''presence_penalty'',
      ''frequency_penalty'', ''logit_bias'']"

definition left_unset :: "kwargs \<Rightarrow> string \<Rightarrow> bool" where
  "left_unset kw k = (kw k = None \<or> kw k = Some PNone)"

definition no_null :: "payload \<Rightarrow> bool" where
  "no_null q = (PNone \<notin> snd ` set q)"

definition omits_unset :: "kwargs \<Rightarrow> payload \<Rightarrow> bool" where
  "omits_unset kw q = (\<forall>k\<in>set sampling_parameters. left_unset kw k \<longrightarrow> k \<notin> fst ` set q)"






section \<open>Concrete environments and requests\<close>

text \<open>A chat client that is down for good, and a plain single-prompt request.\<close>

definition always_down :: env where
  "always_down =
     \<lparr>create = (\<lambda>k q. Inl (ExternalError ''down'')),
      random = (\<lambda>n. 1 / 2),
      callable = (\<lambda>f p kw. Inr p),
      str_other = (\<lambda>v. ''?'')\<rparr>"

definition hello :: kwargs where
  "hello = [''model'' \<mapsto> PStr ''gpt-4'', ''prompt'' \<mapsto> PStr ''hello'']"

text \<open>
  A chat client that raises a rate-limit error on its first \<open>k\<close> calls and answers every
  later call with one choice.
\<close>

definition one_choice :: chat_response where
  "one_choice =
     \<lparr>chat_choices = [\<lparr>message_content = PStr ''hi'', chat_finish_reason = PStr ''stop''\<rparr>],
      chat_model = ''gpt-4-0613'',
      chat_usage = Some \<lparr>prompt_tokens = 3, completion_tokens = 1, total_tokens = 4\<rparr>\<rparr>"

definition flaky :: "nat \<Rightarrow> env" where
  "flaky k =
     \<lparr>create = (\<lambda>i q. if i < k then Inl (ExternalError ''rate limit'') else Inr one_choice),
      random = (\<lambda>n. 1 / 2),
      callable = (\<lambda>f p kw. Inr p),
      str_other = (\<lambda>v. ''?'')\<rparr>"



text \<open>
  An environment whose endpoint returns the prompts it was given, and a request for a
  local model whose prompt is a list of lists.
\<close>

definition echo :: env where
  "echo =
     \<lparr>create = (\<lambda>k q. Inr one_choice),
      random = (\<lambda>n. 1 / 2),
      callable = (\<lambda>f p kw. Inr p),
      str_other = (\<lambda>v. ''?'')\<rparr>"


text \<open>A list-of-prompts request that sets \<open>n\<close> and passes \<open>temperature=None\<close>.\<close>

definition batch_request :: kwargs where
  "batch_request =
     [''model'' \<mapsto> PStr ''gpt-4'', ''prompt'' \<mapsto> PList [PStr ''a'', PStr ''b''],
      ''n'' \<mapsto> PInt 3, ''temperature'' \<mapsto> PNone]"





section \<open>Properties of the backoff operation\<close>

declare retrying.simps [simp del]

lemma calls_made_append: "calls_made (w @ v) = calls_made w + calls_made v"
  by (simp add: calls_made_def)

lemma calls_made_simps:
  "calls_made [] = 0"
  "calls_made (Call q # w) = Suc (calls_made w)"
  "calls_made (Sleep d # w) = calls_made w"
  "calls_made (Print e # w) = calls_made w"
  "calls_made (Delegate f v # w) = calls_made w"
  by (simp_all add: calls_made_def)

lemma retrying_success:
  "completion_body E kw w = (Inr r, w1) \<Longrightarrow> retrying E kw a w = (Inr r, w1)"
  by (subst retrying.simps) simp

lemma retrying_stop:
  "completion_body E kw w = (Inl e, w1) \<Longrightarrow> 10 \<le> a \<Longrightarrow>
     retrying E kw a w = (Inl (RetryError e), w1)"
  by (subst retrying.simps) (simp add: stop_after_attempt_def)

lemma retrying_again:
  "completion_body E kw w = (Inl e, w1) \<Longrightarrow> a < 10 \<Longrightarrow>
   0 \<le> wait_random_exponential E a w1 \<Longrightarrow>
     retrying E kw a w = retrying E kw (Suc a) (w1 @ [Sleep (wait_random_exponential E a w1)])"
  by (subst retrying.simps) (simp add: stop_after_attempt_def sleep_def)

lemma completion_body_fail:
  "create E (calls_made w) (new_kwargs kw (kw_get kw ''prompt'' (PStr ''''))) = Inl e \<Longrightarrow>
     completion_body E kw w = (Inl e, w @ [Call (new_kwargs kw (kw_get kw ''prompt'' (PStr '''')))])"
  by (simp add: completion_body_def)

lemma completion_body_ok:
  "create E (calls_made w) (new_kwargs kw (kw_get kw ''prompt'' (PStr ''''))) = Inr r \<Longrightarrow>
     completion_body E kw w =
       (Inr (format_response r), w @ [Call (new_kwargs kw (kw_get kw ''prompt'' (PStr '''')))])"
  by (simp add: completion_body_def)

lemma wait_exponential_eq: "1 \<le> a \<Longrightarrow> wait_exponential a = min (2 ^ (a - 1)) 60"
  by (simp add: wait_exponential_def)

lemma wait_random_exponential_bounds:
  assumes "0 \<le> random E (length w)" "random E (length w) \<le> 1"
  shows "0 \<le> wait_random_exponential E a w"
    and "wait_random_exponential E a w \<le> wait_exponential a"
proof -
  have h: "0 \<le> wait_exponential a" by (simp add: wait_exponential_def)
  show "0 \<le> wait_random_exponential E a w"
    using assms h by (simp add: wait_random_exponential_def)
  show "wait_random_exponential E a w \<le> wait_exponential a"
    using assms h mult_left_le [of "random E (length w)" "wait_exponential a"]
    by (simp add: wait_random_exponential_def)
qed

lemma retrying_failures:
  assumes rnd: "\<forall>n. 0 \<le> random E n \<and> random E n \<le> 1"
  shows "a + k \<le> 10 \<Longrightarrow>
    \<forall>j<k. create E (calls_made w + j) (new_kwargs kw (kw_get kw ''prompt'' (PStr ''''))) = Inl (err j) \<Longrightarrow>
    \<exists>ds. length ds = k \<and> (\<forall>j<k. 0 \<le> ds ! j \<and> ds ! j \<le> wait_exponential (a + j)) \<and>
      retrying E kw a w =
        retrying E kw (a + k)
          (w @ concat (map (\<lambda>d. [Call (new_kwargs kw (kw_get kw ''prompt'' (PStr ''''))), Sleep d]) ds))"
proof (induction k arbitrary: a w err)
  case 0
  then show ?case by simp
next
  case (Suc k)
  let ?p = "new_kwargs kw (kw_get kw ''prompt'' (PStr ''''))"
  let ?w1 = "w @ [Call ?p]"
  let ?d = "wait_random_exponential E a ?w1"
  have f0: "create E (calls_made w) ?p = Inl (err 0)" using Suc.prems(2) by force
  have d: "0 \<le> ?d" "?d \<le> wait_exponential a"
    using wait_random_exponential_bounds [of E ?w1 a] rnd by auto
  have step: "retrying E kw a w = retrying E kw (Suc a) (?w1 @ [Sleep ?d])"
    using retrying_again [OF completion_body_fail [OF f0]] Suc.prems(1) d(1) by simp
  have cm: "calls_made (?w1 @ [Sleep ?d]) = Suc (calls_made w)"
    by (simp add: calls_made_append calls_made_simps)
  have fs: "\<forall>j<k. create E (calls_made (?w1 @ [Sleep ?d]) + j) ?p = Inl ((err \<circ> Suc) j)"
    using Suc.prems(2) cm by auto
  have le: "Suc a + k \<le> 10" using Suc.prems(1) by simp
  from Suc.IH [OF le fs]
  obtain ds where ds: "length ds = k"
      "\<forall>j<k. 0 \<le> ds ! j \<and> ds ! j \<le> wait_exponential (Suc a + j)"
      "retrying E kw (Suc a) (?w1 @ [Sleep ?d]) =
         retrying E kw (Suc a + k) ((?w1 @ [Sleep ?d]) @ concat (map (\<lambda>d. [Call ?p, Sleep d]) ds))"
    by auto
  have b: "\<forall>j<Suc k. 0 \<le> (?d # ds) ! j \<and> (?d # ds) ! j \<le> wait_exponential (a + j)"
  proof (intro allI impI)
    fix j assume "j < Suc k"
    then show "0 \<le> (?d # ds) ! j \<and> (?d # ds) ! j \<le> wait_exponential (a + j)"
      using d ds(2) by (cases j) auto
  qed
  show ?case
    apply (rule exI [of _ "?d # ds"])
    using ds(1) b step ds(3) by simp
qed

text \<open>
  Claim C1, as the code has it. When the call of the chat client fails on each of ten
  attempts in a row, \<open>completion_with_backoff\<close> makes exactly ten calls with nine sleeps
  between them; the \<open>j\<close>-th sleep (counted from 0) is a random duration between 0 and
  a window of \<open>2 ^ j\<close> time units, the window starting at 1 and being capped at 60; then
  the operation gives up and raises tenacity's \<open>RetryError\<close>, which wraps the error of the
  tenth attempt.
\<close>

theorem backoff_exhausted:
  assumes rnd: "\<forall>n. 0 \<le> random E n \<and> random E n \<le> 1"
    and fails: "\<forall>j<10. create E (calls_made w + j)
                        (new_kwargs kw (kw_get kw ''prompt'' (PStr ''''))) = Inl (err j)"
  shows "\<exists>ds. length ds = 9 \<and> (\<forall>j<9. 0 \<le> ds ! j \<and> ds ! j \<le> min (2 ^ j) 60) \<and>
           completion_with_backoff E kw w =
             (Inl (RetryError (err 9)),
              w @ concat (map (\<lambda>d. [Call (new_kwargs kw (kw_get kw ''prompt'' (PStr ''''))), Sleep d]) ds)
                @ [Call (new_kwargs kw (kw_get kw ''prompt'' (PStr '''')))])"
proof -
  let ?p = "new_kwargs kw (kw_get kw ''prompt'' (PStr ''''))"
  have f9: "\<forall>j<9. create E (calls_made w + j) ?p = Inl (err j)" using fails by simp
  from retrying_failures [OF rnd, of 1 9 w kw err] f9
  obtain ds where ds: "length ds = 9"
      "\<forall>j<9. 0 \<le> ds ! j \<and> ds ! j \<le> wait_exponential (1 + j)"
      "retrying E kw 1 w = retrying E kw 10 (w @ concat (map (\<lambda>d. [Call ?p, Sleep d]) ds))"
    by auto
  let ?w9 = "w @ concat (map (\<lambda>d. [Call ?p, Sleep d]) ds)"
  have "calls_made (concat (map (\<lambda>d. [Call ?p, Sleep d]) xs)) = length xs" for xs :: "rat list"
    by (induction xs) (simp_all add: calls_made_simps)
  then have cm: "calls_made ?w9 = calls_made w + 9"
    using ds(1) by (simp add: calls_made_append)
  have "create E (calls_made ?w9) ?p = Inl (err 9)" using fails cm by simp
  from retrying_stop [OF completion_body_fail [OF this], of 10]
  have last: "retrying E kw 10 ?w9 = (Inl (RetryError (err 9)), ?w9 @ [Call ?p])" by simp
  have "\<forall>j<9. 0 \<le> ds ! j \<and> ds ! j \<le> min (2 ^ j) 60"
    using ds(2) by (simp add: wait_exponential_eq)
  then show ?thesis
    using ds(1) ds(3) last by (auto simp: completion_with_backoff_def)
qed

theorem backoff_exhausted_witness:
  "(\<forall>n. 0 \<le> random always_down n \<and> random always_down n \<le> 1) \<and>
   (\<forall>j. create always_down (calls_made [] + j)
        (new_kwargs hello (kw_get hello ''prompt'' (PStr ''''))) = Inl (ExternalError ''down'')) \<and>
   (\<exists>ds. length ds = 9 \<and> (\<forall>j<9. 0 \<le> ds ! j \<and> ds ! j \<le> min (2 ^ j) 60) \<and>
      completion_with_backoff always_down hello [] =
        (Inl (RetryError (ExternalError ''down'')),
         [] @ concat (map (\<lambda>d. [Call (new_kwargs hello (kw_get hello ''prompt'' (PStr ''''))), Sleep d]) ds)
           @ [Call (new_kwargs hello (kw_get hello ''prompt'' (PStr '''')))]))"
  using backoff_exhausted [of always_down "[]" hello "\<lambda>j. ExternalError ''down''"]
  by (simp add: always_down_def)

text \<open>
  The exception that reaches the caller after ten failures is the \<open>RetryError\<close>, not the
  error of the chat client itself.
\<close>

theorem backoff_raises_retry_error:
  "fst (completion_with_backoff always_down hello []) = Inl (RetryError (ExternalError ''down'')) \<and>
   fst (completion_with_backoff always_down hello []) \<noteq> Inl (ExternalError ''down'')"
  by (simp add: completion_with_backoff_def retrying.simps completion_body_def always_down_def
      stop_after_attempt_def sleep_def wait_random_exponential_def wait_exponential_def Let_def)

text \<open>
  Claim C7. When the call of the chat client fails on the first \<open>k\<close> attempts, for some
  \<open>k\<close> below 10, and succeeds on the next one, \<open>completion_with_backoff\<close> returns the
  reshaped answer of that successful call, after \<open>k + 1\<close> calls in all.
\<close>

theorem backoff_recovers:
  assumes rnd: "\<forall>n. 0 \<le> random E n \<and> random E n \<le> 1"
    and k: "k < 10"
    and fails: "\<forall>j<k. isl (create E (calls_made w + j)
                              (new_kwargs kw (kw_get kw ''prompt'' (PStr ''''))))"
    and ok: "create E (calls_made w + k) (new_kwargs kw (kw_get kw ''prompt'' (PStr ''''))) = Inr r"
  shows "fst (completion_with_backoff E kw w) = Inr (format_response r) \<and>
         calls_made (snd (completion_with_backoff E kw w)) = calls_made w + k + 1"
proof -
  let ?p = "new_kwargs kw (kw_get kw ''prompt'' (PStr ''''))"
  define err where "err j = projl (create E (calls_made w + j) ?p)" for j
  have f: "\<forall>j<k. create E (calls_made w + j) ?p = Inl (err j)"
    using fails by (simp add: err_def)
  have le: "1 + k \<le> 10" using k by simp
  from retrying_failures [OF rnd le f]
  obtain ds where ds: "length ds = k"
      "retrying E kw 1 w = retrying E kw (1 + k) (w @ concat (map (\<lambda>d. [Call ?p, Sleep d]) ds))"
    by auto
  let ?wk = "w @ concat (map (\<lambda>d. [Call ?p, Sleep d]) ds)"
  have "calls_made (concat (map (\<lambda>d. [Call ?p, Sleep d]) xs)) = length xs" for xs :: "rat list"
    by (induction xs) (simp_all add: calls_made_simps)
  then have cm: "calls_made ?wk = calls_made w + k"
    using ds(1) by (simp add: calls_made_append)
  have "create E (calls_made ?wk) ?p = Inr r" using ok cm by simp
  from retrying_success [OF completion_body_ok [OF this], of "1 + k"]
  have "retrying E kw (1 + k) ?wk = (Inr (format_response r), ?wk @ [Call ?p])" .
  then show ?thesis
    using ds(2) cm by (simp add: completion_with_backoff_def calls_made_append calls_made_simps)
qed

theorem backoff_recovers_witness:
  "(\<forall>n. 0 \<le> random (flaky 9) n \<and> random (flaky 9) n \<le> 1) \<and> (9::nat) < 10 \<and>
   (\<forall>j. create (flaky 9) (calls_made [] + j) (new_kwargs hello (kw_get hello ''prompt'' (PStr '''')))
        = (if j < 9 then Inl (ExternalError ''rate limit'') else Inr one_choice)) \<and>
   fst (completion_with_backoff (flaky 9) hello []) = Inr (format_response one_choice) \<and>
   calls_made (snd (completion_with_backoff (flaky 9) hello [])) = 10"
  using backoff_recovers [of "flaky 9" 9 "[]" hello one_choice]
  by (simp add: flaky_def calls_made_simps)

text \<open>
  Claim C8. \<open>delayed_completion_with_backoff\<close> is the sleep followed by
  \<open>completion_with_backoff\<close> on the same keyword arguments: whatever the latter returns or
  raises after the sleep is what the delayed operation returns or raises, and a value the
  delayed operation returns is exactly the value \<open>completion_with_backoff\<close> returns.
  (\<open>time.sleep\<close> refuses a negative delay with \<open>ValueError\<close>; nothing is returned then.)
\<close>

theorem delayed_is_sleep_then_backoff:
  "delayed_completion_with_backoff E d kw w =
     (if d < 0 then (Inl ValueError, w) else completion_with_backoff E kw (w @ [Sleep d])) \<and>
   (\<forall>r w'. delayed_completion_with_backoff E d kw w = (Inr r, w') \<longleftrightarrow>
        0 \<le> d \<and> completion_with_backoff E kw (w @ [Sleep d]) = (Inr r, w'))"
  by (auto simp: delayed_completion_with_backoff_def sleep_def)

theorem delayed_is_sleep_then_backoff_witness:
  "delayed_completion_with_backoff (flaky 0) 1 hello [] =
     completion_with_backoff (flaky 0) hello [Sleep 1] \<and>
   fst (delayed_completion_with_backoff (flaky 0) 1 hello []) = Inr (format_response one_choice)"
  using delayed_is_sleep_then_backoff [of "flaky 0" 1 hello "[]"]
        retrying_success [OF completion_body_ok [of "flaky 0" "[Sleep 1]" hello one_choice], of 1]
  by (simp add: flaky_def calls_made_simps completion_with_backoff_def)

section \<open>Properties of the unconditional-retry operation\<close>



lemma retry_loop_sleep_error:
  "try_body E kw w = (Inl e, w1) \<Longrightarrow> st < 0 \<Longrightarrow>
     retry_loop E st kw w = Some (Inl ValueError, w1 @ [Print e])"
  by (subst retry_loop.simps) (simp add: sleep_def)

lemma batch_loop_trace:
  "\<exists>ext. snd (batch_loop E kw i ps acc tot w) = w @ ext \<and>
     (\<forall>ev\<in>set ext. \<exists>p\<in>set ps. ev = Call (new_kwargs_batch kw (PStr (py_str E p))))"
proof (induction ps arbitrary: i acc tot w)
  case Nil
  then show ?case by simp
next
  case (Cons p ps)
  let ?q = "new_kwargs_batch kw (PStr (py_str E p))"
  show ?case
  proof (cases "create E (calls_made w) ?q")
    case (Inl e)
    then show ?thesis by (simp add: Let_def)
  next
    case (Inr r)
    from Cons.IH [of "Suc i" "acc @ map (legacy_choice_of i) (chat_choices r)"
        "add_usage tot (chat_usage r)" "w @ [Call ?q]"]
    obtain ext where "snd (batch_loop E kw (Suc i) ps (acc @ map (legacy_choice_of i) (chat_choices r))
        (add_usage tot (chat_usage r)) (w @ [Call ?q])) = (w @ [Call ?q]) @ ext"
      "\<forall>ev\<in>set ext. \<exists>p\<in>set ps. ev = Call (new_kwargs_batch kw (PStr (py_str E p)))" by blast
    then show ?thesis using Inr
      by (intro exI [of _ "Call ?q # ext"]) (auto simp: Let_def)
  qed
qed

lemma try_body_trace:
  "\<exists>ext. snd (try_body E kw w) = w @ ext \<and> (\<forall>ev\<in>set ext. \<exists>q. ev = Call q \<and> outbound E kw q)"
proof (cases "\<exists>ps. kw_get kw ''prompt'' (PStr '''') = PList ps")
  case True
  then obtain ps where ps: "kw_get kw ''prompt'' (PStr '''') = PList ps" by blast
  from batch_loop_trace [of E kw 0 ps "[]" zero_usage w]
  show ?thesis using ps by (fastforce simp: try_body_def outbound_def)
next
  case False
  then show ?thesis
    by (cases "kw_get kw ''prompt'' (PStr '''')")
       (auto simp: try_body_def outbound_def Let_def split: sum.splits)
qed

lemma retry_loop_returns:
  assumes ret: "retry_loop E st kw w = Some y"
  shows "(\<exists>pre r. try_body E kw (w @ pre) = (Inr r, snd y) \<and> fst y = Inr (Response r) \<and>
              (\<forall>ev\<in>set pre. loop_event E st kw ev)) \<or>
         (st < 0 \<and> fst y = Inl ValueError \<and>
            (\<exists>pre. snd y = w @ pre \<and> (\<forall>ev\<in>set pre. loop_event E st kw ev)))"
proof (rule retry_loop.raw_induct
    [where P = "\<lambda>E st kw w y. (\<exists>pre r. try_body E kw (w @ pre) = (Inr r, snd y) \<and> fst y = Inr (Response r) \<and>
              (\<forall>ev\<in>set pre. loop_event E st kw ev)) \<or>
         (st < 0 \<and> fst y = Inl ValueError \<and>
            (\<exists>pre. snd y = w @ pre \<and> (\<forall>ev\<in>set pre. loop_event E st kw ev)))", OF _ ret])
  fix f E st kw w y
  assume IH: "\<And>E st kw w y. f E st kw w = Some y \<Longrightarrow>
        (\<exists>pre r. try_body E kw (w @ pre) = (Inr r, snd y) \<and> fst y = Inr (Response r) \<and>
              (\<forall>ev\<in>set pre. loop_event E st kw ev)) \<or>
         (st < 0 \<and> fst y = Inl ValueError \<and>
            (\<exists>pre. snd y = w @ pre \<and> (\<forall>ev\<in>set pre. loop_event E st kw ev)))"
    and eq: "(case try_body E kw w of
          (Inl e, w1) \<Rightarrow>
            (case sleep st (w1 @ [Print e]) of
               Inl e' \<Rightarrow> Some (Inl e', w1 @ [Print e])
             | Inr w2 \<Rightarrow> f E st kw w2)
        | (Inr r, w1) \<Rightarrow> Some (Inr (Response r), w1)) = Some y"
  obtain x w1 where b: "try_body E kw w = (x, w1)" by (cases "try_body E kw w")
  show "(\<exists>pre r. try_body E kw (w @ pre) = (Inr r, snd y) \<and> fst y = Inr (Response r) \<and>
              (\<forall>ev\<in>set pre. loop_event E st kw ev)) \<or>
         (st < 0 \<and> fst y = Inl ValueError \<and>
            (\<exists>pre. snd y = w @ pre \<and> (\<forall>ev\<in>set pre. loop_event E st kw ev)))"
  proof (cases x)
    case (Inr r)
    then have "try_body E kw (w @ []) = (Inr r, snd y) \<and> fst y = Inr (Response r)"
      using b eq by auto
    then show ?thesis by (intro disjI1 exI [of _ "[]"] exI [of _ r]) simp
  next
    case (Inl e)
    from try_body_trace [of E kw w] b obtain ext where
      ext: "w1 = w @ ext" "\<forall>ev\<in>set ext. \<exists>q. ev = Call q \<and> outbound E kw q" by auto
    have ext': "\<forall>ev\<in>set (ext @ [Print e]). loop_event E st kw ev"
      using ext(2) by (auto simp: loop_event_def)
    show ?thesis
    proof (cases "st < 0")
      case True
      then have "y = (Inl ValueError, w @ ext @ [Print e])"
        using eq b Inl ext(1) by (simp add: sleep_def)
      then show ?thesis using True ext' by (intro disjI2) auto
    next
      case False
      then have "f E st kw (w1 @ [Print e, Sleep st]) = Some y"
        using eq b Inl by (simp add: sleep_def)
      from IH [OF this] False
      obtain pre r where pre: "try_body E kw ((w1 @ [Print e, Sleep st]) @ pre) = (Inr r, snd y)"
        "fst y = Inr (Response r)" "\<forall>ev\<in>set pre. loop_event E st kw ev" by blast
      have "\<forall>ev\<in>set (ext @ [Print e, Sleep st] @ pre). loop_event E st kw ev"
        using pre(3) ext' by (auto simp: loop_event_def)
      then show ?thesis
        using pre(1,2) ext(1)
        by (intro disjI1 exI [of _ "ext @ [Print e, Sleep st] @ pre"] exI [of _ r]) simp
    qed
  qed
qed

lemma retry_loop_trace:
  assumes ret: "retry_loop E st kw w = Some y"
  shows "\<exists>ext. snd y = w @ ext \<and> (\<forall>ev\<in>set ext. loop_event E st kw ev)"
proof -
  from retry_loop_returns [OF ret] show ?thesis
  proof (elim disjE exE conjE)
    fix pre r
    assume a: "try_body E kw (w @ pre) = (Inr r, snd y)" "\<forall>ev\<in>set pre. loop_event E st kw ev"
    from try_body_trace [of E kw "w @ pre"] a(1) obtain ext where
      "snd y = (w @ pre) @ ext" "\<forall>ev\<in>set ext. \<exists>q. ev = Call q \<and> outbound E kw q" by auto
    then show ?thesis using a(2)
      by (intro exI [of _ "pre @ ext"]) (auto simp: loop_event_def)
  next
    fix pre
    assume "snd y = w @ pre" "\<forall>ev\<in>set pre. loop_event E st kw ev"
    then show ?thesis by blast
  qed
qed










section \<open>The local-model branch\<close>



lemma local_branch_trace:
  "\<exists>ext. snd (local_branch E kw w) = w @ ext \<and> (\<forall>ev\<in>set ext. \<not> is_call ev)"
  by (auto simp: local_branch_def split: option.splits sum.splits pyval.splits)





section \<open>The outbound keyword arguments\<close>

lemma strip_none_keys:
  "k \<in> fst ` set (strip_none d) \<longleftrightarrow> (\<exists>v. (k, v) \<in> set d \<and> v \<noteq> PNone)"
  by (force simp: strip_none_def)

lemma strip_none_no_null: "no_null (strip_none d)"
  by (auto simp: no_null_def strip_none_def)

lemma kw_get_unset: "left_unset kw k \<Longrightarrow> kw_get kw k PNone = PNone"
  by (auto simp: left_unset_def kw_get_def)

lemma new_kwargs_omits_unset: "omits_unset kw (new_kwargs kw c)"
  unfolding omits_unset_def sampling_parameters_def new_kwargs_def
  by (auto simp: strip_none_keys kw_get_unset)

lemma new_kwargs_batch_omits_unset: "omits_unset kw (new_kwargs_batch kw c)"
  unfolding omits_unset_def sampling_parameters_def new_kwargs_batch_def
  by (auto simp: strip_none_keys kw_get_unset)

lemma new_kwargs_batch_no_n: "''n'' \<notin> fst ` set (new_kwargs_batch kw c)"
  unfolding new_kwargs_batch_def by (simp add: strip_none_keys)

lemma outbound_clean: "outbound E kw q \<Longrightarrow> no_null q \<and> omits_unset kw q"
  by (cases "kw_get kw ''prompt'' (PStr '''')")
     (auto simp: outbound_def new_kwargs_def new_kwargs_batch_def strip_none_no_null
        new_kwargs_omits_unset [unfolded new_kwargs_def]
        new_kwargs_batch_omits_unset [unfolded new_kwargs_batch_def])

lemma outbound_batch_no_n:
  "kw_get kw ''prompt'' (PStr '''') = PList ps \<Longrightarrow> outbound E kw q \<Longrightarrow> ''n'' \<notin> fst ` set q"
  using new_kwargs_batch_no_n by (auto simp: outbound_def)

lemma retrying_trace:
  "\<exists>ext. snd (retrying E kw a w) = w @ ext \<and>
     (\<forall>q. Call q \<in> set ext \<longrightarrow> q = new_kwargs kw (kw_get kw ''prompt'' (PStr '''')))"
proof (induction E kw a w rule: retrying.induct)
  case (1 E kw a w)
  let ?p = "new_kwargs kw (kw_get kw ''prompt'' (PStr ''''))"
  obtain x w1 where b: "completion_body E kw w = (x, w1)" by (cases "completion_body E kw w")
  have w1: "w1 = w @ [Call ?p]"
    using b by (auto simp: completion_body_def Let_def split: sum.splits)
  show ?case
  proof (cases x)
    case (Inr r)
    then show ?thesis using retrying_success [of E kw w r w1 a] b w1 by simp
  next
    case (Inl e)
    show ?thesis
    proof (cases "stop_after_attempt a")
      case True
      then show ?thesis
        using retrying_stop [of E kw w e w1 a] b w1 Inl by (simp add: stop_after_attempt_def)
    next
      case False
      show ?thesis
      proof (cases "sleep (wait_random_exponential E a w1) w1")
        case (Inl e')
        then show ?thesis using b w1 \<open>x = Inl e\<close> False by (subst retrying.simps) simp
      next
        case (Inr w2)
        then have w2: "w2 = w1 @ [Sleep (wait_random_exponential E a w1)]"
          by (auto simp: sleep_def split: if_splits)
        from "1.IH" [OF b [symmetric] \<open>x = Inl e\<close> False Inr]
        obtain ext where ext: "snd (retrying E kw (Suc a) w2) = w2 @ ext"
          "\<forall>q. Call q \<in> set ext \<longrightarrow> q = ?p" by blast
        have "retrying E kw a w = retrying E kw (Suc a) w2"
          using b \<open>x = Inl e\<close> False Inr by (subst retrying.simps) simp
        then show ?thesis using ext w1 w2 by auto
      qed
    qed
  qed
qed

lemma backoff_calls_clean:
  assumes "Call q \<in> set (drop (length w) (snd (completion_with_backoff E kw w)))"
  shows "no_null q \<and> omits_unset kw q"
proof -
  from retrying_trace [of E kw 1 w] obtain ext where
    "snd (retrying E kw 1 w) = w @ ext"
    "\<forall>q. Call q \<in> set ext \<longrightarrow> q = new_kwargs kw (kw_get kw ''prompt'' (PStr ''''))" by blast
  then have "q = new_kwargs kw (kw_get kw ''prompt'' (PStr ''''))"
    using assms by (simp add: completion_with_backoff_def)
  then show ?thesis
    using new_kwargs_omits_unset [of kw] strip_none_no_null by (simp add: new_kwargs_def)
qed

lemma try_body_calls:
  assumes "Call q \<in> set (drop (length w) (snd (try_body E kw w)))"
  shows "outbound E kw q"
proof -
  from try_body_trace [of E kw w] obtain ext where
    "snd (try_body E kw w) = w @ ext" "\<forall>ev\<in>set ext. \<exists>q. ev = Call q \<and> outbound E kw q" by blast
  then show ?thesis using assms by auto
qed

lemma completion_create_retry_calls:
  assumes ret: "completion_create_retry E st kw w = Some y"
    and q: "Call q \<in> set (drop (length w) (snd y))"
  shows "outbound E kw q"
proof (cases "kw ''model''")
  case None
  then show ?thesis using ret q by (auto simp: completion_create_retry_def)
next
  case (Some m)
  show ?thesis
  proof (cases "local_model m")
    case (Inl e)
    then show ?thesis using ret q Some by (auto simp: completion_create_retry_def)
  next
    case (Inr b)
    show ?thesis
    proof (cases b)
      case True
      from local_branch_trace [of E kw w] obtain ext where
        "snd (local_branch E kw w) = w @ ext" "\<forall>ev\<in>set ext. \<not> is_call ev" by blast
      moreover have "y = local_branch E kw w"
        using ret Some Inr True by (simp add: completion_create_retry_def)
      ultimately show ?thesis using q by auto
    next
      case False
      then have "retry_loop E st kw w = Some y"
        using ret Some Inr by (simp add: completion_create_retry_def)
      from retry_loop_trace [OF this] obtain ext where
        "snd y = w @ ext" "\<forall>ev\<in>set ext. loop_event E st kw ev" by blast
      then show ?thesis using q by (auto simp: loop_event_def)
    qed
  qed
qed

text \<open>
  Claim C6. Every call of the chat client made by \<open>completion_with_backoff\<close>, by
  \<open>delayed_completion_with_backoff\<close>, by an attempt of \<open>completion_create_retry\<close> or by a
  run of \<open>completion_create_retry\<close> that returns carries keyword arguments none of which
  is \<open>None\<close>, and without an entry for any optional parameter the caller left unset.
  (\<open>model\<close> and \<open>messages\<close> are not optional: an absent model identifier or prompt is
  replaced by its default.)
\<close>

theorem unset_parameters_omitted:
  "(\<forall>q. Call q \<in> set (drop (length w) (snd (completion_with_backoff E kw w))) \<longrightarrow>
       no_null q \<and> omits_unset kw q) \<and>
   (\<forall>q. Call q \<in> set (drop (length w) (snd (delayed_completion_with_backoff E d kw w))) \<longrightarrow>
       no_null q \<and> omits_unset kw q) \<and>
   (\<forall>q. Call q \<in> set (drop (length w) (snd (try_body E kw w))) \<longrightarrow>
       no_null q \<and> omits_unset kw q) \<and>
   (\<forall>y q. completion_create_retry E st kw w = Some y \<and>
        Call q \<in> set (drop (length w) (snd y)) \<longrightarrow>
       no_null q \<and> omits_unset kw q)"
proof -
  have a: "no_null q \<and> omits_unset kw q"
    if "Call q \<in> set (drop (length w) (snd (completion_with_backoff E kw w)))" for q
    using that by (rule backoff_calls_clean)
  have b: "no_null q \<and> omits_unset kw q"
    if q: "Call q \<in> set (drop (length w) (snd (delayed_completion_with_backoff E d kw w)))" for q
  proof (cases "d < 0")
    case True
    then show ?thesis using q by (simp add: delayed_completion_with_backoff_def sleep_def)
  next
    case False
    from retrying_trace [of E kw 1 "w @ [Sleep d]"] obtain ext where
      ext: "snd (completion_with_backoff E kw (w @ [Sleep d])) = (w @ [Sleep d]) @ ext"
      by (auto simp: completion_with_backoff_def)
    have "Call q \<in> set ext"
      using q False ext by (simp add: delayed_completion_with_backoff_def sleep_def)
    then have "Call q \<in> set (drop (length (w @ [Sleep d]))
        (snd (completion_with_backoff E kw (w @ [Sleep d]))))"
      using ext by simp
    then show ?thesis by (rule backoff_calls_clean)
  qed
  have c: "no_null q \<and> omits_unset kw q"
    if "Call q \<in> set (drop (length w) (snd (try_body E kw w)))" for q
    using that try_body_calls outbound_clean by blast
  have d: "no_null q \<and> omits_unset kw q"
    if "completion_create_retry E st kw w = Some y" "Call q \<in> set (drop (length w) (snd y))"
    for y q
    using that completion_create_retry_calls outbound_clean by blast
  show ?thesis using a b c d by blast
qed

theorem unset_parameters_omitted_witness:
  "snd (try_body echo batch_request []) =
     [Call [(''model'', PStr ''gpt-4''), (''messages'', user_message (PStr ''a''))],
      Call [(''model'', PStr ''gpt-4''), (''messages'', user_message (PStr ''b''))]] \<and>
   no_null [(''model'', PStr ''gpt-4''), (''messages'', user_message (PStr ''a''))] \<and>
   omits_unset batch_request [(''model'', PStr ''gpt-4''), (''messages'', user_message (PStr ''a''))]"
proof -
  have t: "snd (try_body echo batch_request []) =
     [Call [(''model'', PStr ''gpt-4''), (''messages'', user_message (PStr ''a''))],
      Call [(''model'', PStr ''gpt-4''), (''messages'', user_message (PStr ''b''))]]"
    by (simp add: try_body_def batch_request_def kw_get_def new_kwargs_batch_def strip_none_def
        py_str_def echo_def Let_def calls_made_simps calls_made_append user_message_def)
  then have "Call [(''model'', PStr ''gpt-4''), (''messages'', user_message (PStr ''a''))]
      \<in> set (drop (length ([]::world)) (snd (try_body echo batch_request [])))" by simp
  with unset_parameters_omitted [of "[]" echo batch_request 0 5] t show ?thesis by blast
qed

text \<open>
  Claim C9. For a list-of-prompts request, no call of the chat client made by an attempt of
  \<open>completion_create_retry\<close>, or by a run of it that returns, has an entry \<open>n\<close>, whatever
  the caller passed as \<open>n\<close>.
\<close>

theorem batch_never_sends_n:
  assumes "kw_get kw ''prompt'' (PStr '''') = PList ps"
  shows "(\<forall>w q. Call q \<in> set (drop (length w) (snd (try_body E kw w))) \<longrightarrow>
            ''n'' \<notin> fst ` set q) \<and>
         (\<forall>y q. completion_create_retry E st kw w = Some y \<and>
              Call q \<in> set (drop (length w) (snd y)) \<longrightarrow> ''n'' \<notin> fst ` set q)"
  using try_body_calls completion_create_retry_calls outbound_batch_no_n [OF assms] by blast

theorem batch_never_sends_n_witness:
  "batch_request ''n'' = Some (PInt 3) \<and>
   kw_get batch_request ''prompt'' (PStr '''') = PList [PStr ''a'', PStr ''b''] \<and>
   snd (try_body echo batch_request []) =
     [Call [(''model'', PStr ''gpt-4''), (''messages'', user_message (PStr ''a''))],
      Call [(''model'', PStr ''gpt-4''), (''messages'', user_message (PStr ''b''))]] \<and>
   ''n'' \<notin> fst ` set [(''model'', PStr ''gpt-4''), (''messages'', user_message (PStr ''a''))]"
proof -
  have p: "kw_get batch_request ''prompt'' (PStr '''') = PList [PStr ''a'', PStr ''b'']"
    by (simp add: batch_request_def kw_get_def)
  have t: "snd (try_body echo batch_request []) =
     [Call [(''model'', PStr ''gpt-4''), (''messages'', user_message (PStr ''a''))],
      Call [(''model'', PStr ''gpt-4''), (''messages'', user_message (PStr ''b''))]]"
    by (simp add: try_body_def batch_request_def kw_get_def new_kwargs_batch_def strip_none_def
        py_str_def echo_def Let_def calls_made_simps calls_made_append user_message_def)
  then have "Call [(''model'', PStr ''gpt-4''), (''messages'', user_message (PStr ''a''))]
      \<in> set (drop (length ([]::world)) (snd (try_body echo batch_request [])))" by simp
  with batch_never_sends_n [OF p, of echo 5 "[]"] have
    "''n'' \<notin> fst ` set [(''model'', PStr ''gpt-4''), (''messages'', user_message (PStr ''a''))]"
    by blast
  then show ?thesis using p t by (simp add: batch_request_def)
qed

section \<open>The shape of the returned dictionary\<close>











section \<open>The list-of-prompts branch\<close>
















end
